theory Spec2Isabelle
  imports Complex_Main "HOL-Library.Product_Lexorder" "HOL-Library.List_Lexorder"
    "HOL-Library.Char_ord" "HOL-Library.Multiset"
begin

section \<open>Calibration validity ranges (calibRepoConverter.py)\<close>

subsection \<open>Times, timespans and dictionaries of lists\<close>

text \<open>
  A point in time is a TAI date measured in days. \<open>astropy.time.Time\<close> stores it in
  floating point; the model takes the exact rational value, so rounding is not part of it.
  A \<open>Timespan\<close> is the tuple \<open>(begin, end)\<close>: it is compared and sorted as a tuple
  (lexicographically) and two timespans are the same dictionary key when both components
  are equal.
\<close>

type_synonym time = rat

type_synonym Timespan = "time \<times> time"

definition day :: time where
  "day = 1"

definition fuzzy_day :: time where
  "fuzzy_day = 1001 / 1000"

text \<open>
  \<open>defaultdict(list)\<close>, in insertion order of its keys: \<open>d[k].append(v)\<close>.
\<close>

fun dict_append :: "'k \<Rightarrow> 'v \<Rightarrow> ('k \<times> 'v list) list \<Rightarrow> ('k \<times> 'v list) list" where
  "dict_append k v [] = [(k, [v])]"
| "dict_append k v ((k', vs) # d) =
     (if k = k' then (k', vs @ [v]) # d else (k', vs) # dict_append k v d)"

text \<open>Appending a sequence of (key, value) pairs, one after the other.\<close>

definition append_all :: "('k \<times> 'v) list \<Rightarrow> ('k \<times> 'v list) list \<Rightarrow> ('k \<times> 'v list) list" where
  "append_all ps d = foldl (\<lambda>d (k, v). dict_append k v d) d ps"

text \<open>All (key, value) pairs held by a dictionary of lists.\<close>

definition dict_pairs :: "('k \<times> 'v list) list \<Rightarrow> ('k \<times> 'v) list" where
  "dict_pairs d = concat (map (\<lambda>(k, vs). map (\<lambda>v. (k, v)) vs) d)"

subsection \<open>The gap-plugging loop of \<open>_finish\<close>\<close>

text \<open>
  How a time and a duration in seconds are printed inside a message is astropy's business;
  the two printers are parameters.
\<close>

record formatting =
  str_time :: "time \<Rightarrow> string"
  str_seconds :: "time \<Rightarrow> string"

definition gap_message :: "formatting \<Rightarrow> Timespan \<Rightarrow> Timespan \<Rightarrow> string" where
  "gap_message F timespan_prev timespan =
     ''Calibration validity gap closed for '' @ str_time F (snd timespan_prev)
       @ '' to '' @ str_time F (fst timespan)"

definition overlap_message :: "formatting \<Rightarrow> Timespan \<Rightarrow> Timespan \<Rightarrow> string" where
  "overlap_message F timespan_prev timespan =
     ''Calibration validity overlap of ''
       @ str_seconds F \<bar>fst timespan - snd timespan_prev\<bar>
       @ '' removed for period '' @ str_time F (fst timespan)
       @ '' to '' @ str_time F (snd timespan_prev)"

record 'r correction =
  correctedRefsByTimespan :: "(Timespan \<times> 'r list) list"
  info_messages :: "string set"
  warn_messages :: "string set"

text \<open>
  The body of the inner loop up to the point where the previous pair is stored: the
  message that is recorded, and the previous timespan as it is stored.
\<close>

definition note_message :: "formatting \<Rightarrow> Timespan \<Rightarrow> Timespan \<Rightarrow> 'r correction \<Rightarrow> 'r correction" where
  "note_message F timespan_prev timespan c =
     (let delta = fst timespan - snd timespan_prev in
      if \<bar>delta\<bar> < fuzzy_day then
        (if delta > 0
         then c\<lparr>info_messages := insert (gap_message F timespan_prev timespan) (info_messages c)\<rparr>
         else c\<lparr>warn_messages := insert (overlap_message F timespan_prev timespan) (warn_messages c)\<rparr>)
      else c)"

definition adjusted_prev :: "Timespan \<Rightarrow> Timespan \<Rightarrow> Timespan" where
  "adjusted_prev timespan_prev timespan =
     (let delta = fst timespan - snd timespan_prev in
      if \<bar>delta\<bar> < fuzzy_day then (fst timespan_prev, fst timespan) else timespan_prev)"

definition store :: "Timespan \<Rightarrow> 'r \<Rightarrow> 'r correction \<Rightarrow> 'r correction" where
  "store timespan r c =
     c\<lparr>correctedRefsByTimespan := dict_append timespan r (correctedRefsByTimespan c)\<rparr>"

fun plug_gaps ::
  "formatting \<Rightarrow> Timespan \<times> 'r \<Rightarrow> (Timespan \<times> 'r) list \<Rightarrow> 'r correction \<Rightarrow> 'r correction" where
  "plug_gaps F (timespan_prev, ref_prev) [] c = store timespan_prev ref_prev c"
| "plug_gaps F (timespan_prev, ref_prev) ((timespan, r) # rest) c =
     plug_gaps F (timespan, r) rest
       (store (adjusted_prev timespan_prev timespan) ref_prev
          (note_message F timespan_prev timespan c))"

datatype error = RuntimeError string | TypeError | IndexError | AssertionError

text \<open>
  One group: sort by timespan (Python's \<open>sorted\<close> is stable, as \<open>sort_key\<close> is), pop the
  first pair (an \<open>IndexError\<close> on an empty list) and run the loop on the rest.
\<close>

definition correct_group ::
  "formatting \<Rightarrow> (Timespan \<times> 'r) list \<Rightarrow> 'r correction \<Rightarrow> error + 'r correction" where
  "correct_group F timespans c =
     (case sort_key fst timespans of
        [] \<Rightarrow> Inl IndexError
      | p # sorted_timespans \<Rightarrow> Inr (plug_gaps F p sorted_timespans c))"


text \<open>All groups in turn; an exception ends the loop.\<close>

fun correct_all ::
  "formatting \<Rightarrow> (Timespan \<times> 'r) list list \<Rightarrow> 'r correction \<Rightarrow> error + 'r correction" where
  "correct_all F [] c = Inr c"
| "correct_all F (timespans # groups) c =
     (case correct_group F timespans c of
        Inl e \<Rightarrow> Inl e
      | Inr c' \<Rightarrow> correct_all F groups c')"

definition ordered :: "Timespan \<Rightarrow> bool" where
  "ordered t \<longleftrightarrow> fst t \<le> snd t"

text \<open>
  A sorted group is already corrected when consecutive timespans are disjoint and, where
  they lie within a fuzzy day of each other, meet exactly.
\<close>

fun already_corrected :: "Timespan list \<Rightarrow> bool" where
  "already_corrected (a # b # ts) \<longleftrightarrow>
     snd a \<le> fst b \<and> (fst b - snd a < fuzzy_day \<longrightarrow> fst b = snd a) \<and> already_corrected (b # ts)"
| "already_corrected _ \<longleftrightarrow> True"

subsection \<open>Reading the Gen2 calibration registry\<close>

datatype log_record = Debug string | Info string | Warn string

record DatasetType =
  name :: string
  dimensions :: "string list"
  isCalibration :: bool

record 'd DatasetRef =
  dataId :: 'd
  datasetType :: DatasetType
  run :: string

record 'd FileDataset =
  refs :: "'d DatasetRef list"
  path :: string

datatype sql_value = SqlNull | SqlInteger int | SqlText string

text \<open>
  A row of the registry, with \<open>validStart\<close> and \<open>validEnd\<close> already read as ISO dates in
  TAI, and the other two columns selected by the query.
\<close>

record Row =
  validStart :: time
  validEnd :: time
  ccd :: sql_value
  filter_column :: sql_value

text \<open>\<open>db.execute\<close> returns a cursor over rows, or raises \<open>sqlite3.OperationalError\<close>.\<close>

datatype execute_result = OperationalError string | Cursor "Row list"

datatype py_type = PyInt | PyStr

text \<open>
  What the converter is given from outside: its configuration and root, the mapper's
  tables for a dataset type (\<open>None\<close> when there are none), the database, the translator
  made for a dataset type and its Gen2 keys (followed by
  \<open>DataCoordinate.standardize\<close>), and the printers.
\<close>

record 'd converter =
  ccdKey :: string
  root :: string
  collection :: string
  tables :: "string \<Rightarrow> string list option"
  db_execute :: "string \<Rightarrow> string \<Rightarrow> execute_result"
  translator :: "string \<Rightarrow> (string \<rightharpoonup> py_type) \<Rightarrow> (string \<rightharpoonup> sql_value) \<Rightarrow> 'd"
  str_dataId :: "'d \<Rightarrow> string"
  printers :: formatting

fun join :: "string \<Rightarrow> string list \<Rightarrow> string" where
  "join sep [] = []"
| "join sep [x] = x"
| "join sep (x # y # ys) = x @ sep @ join sep (y # ys)"

text \<open>\<open>tables[0]\<close>, for \<open>tables\<close> that may be \<open>None\<close>.\<close>

definition first_table :: "string list option \<Rightarrow> error + string" where
  "first_table ts =
     (case ts of None \<Rightarrow> Inl TypeError | Some [] \<Rightarrow> Inl IndexError | Some (t # _) \<Rightarrow> Inr t)"

text \<open>
  \<open>_queryGen2CalibRegistry\<close>: what is logged, and the rows or the exception. The arguments
  of \<open>log.warn\<close> are evaluated before the call, \<open>tables[0]\<close> among them.
\<close>

definition queryGen2CalibRegistry ::
  "'d converter \<Rightarrow> DatasetType \<Rightarrow> string \<Rightarrow> log_record list \<times> (error + Row list)" where
  "queryGen2CalibRegistry C dt calibDate =
     (let fields = [''validStart'', ''validEnd''];
          fields = fields @ [if ''detector'' \<in> set (dimensions dt)
                             then ccdKey C else ''NULL AS '' @ ccdKey C]
      in if ''physical_filter'' \<notin> set (dimensions dt) \<and> ''band'' \<in> set (dimensions dt)
         then ([], Inl AssertionError)
         else
           let fields = fields @ [if ''physical_filter'' \<in> set (dimensions dt)
                                  then ''filter'' else ''NULL AS filter''];
               ts = tables C (name dt)
           in if ts = None \<or> length (the ts) = 0 then
                (case first_table ts of
                   Inl e \<Rightarrow> ([], Inl e)
                 | Inr t \<Rightarrow>
                     ([Warn (''Could not extract calibration ranges for '' @ name dt @ '' in ''
                             @ root C @ ''; no tables in Gen2 mapper.'')], Inr []))
              else
                (case first_table ts of
                   Inl e \<Rightarrow> ([], Inl e)
                 | Inr t \<Rightarrow>
                     (case db_execute C
                             (''SELECT DISTINCT '' @ join '', '' fields @ '' FROM '' @ t
                                @ '' WHERE calibDate = ?;'') calibDate of
                        OperationalError e \<Rightarrow>
                          ([Warn (''Could not extract calibration ranges for '' @ name dt
                                  @ '' in '' @ root C @ '' from table '' @ t @ '': '' @ e)],
                           Inr [])
                      | Cursor results \<Rightarrow> ([], Inr results))))"

subsection \<open>\<open>_finish\<close>\<close>

definition gen2keys :: "'d converter \<Rightarrow> DatasetType \<Rightarrow> (string \<rightharpoonup> py_type)" where
  "gen2keys C dt =
     (let k = Map.empty;
          k = (if ''detector'' \<in> set (dimensions dt) then k(ccdKey C \<mapsto> PyInt) else k)
      in if ''physical_filter'' \<in> set (dimensions dt) then k(''filter'' \<mapsto> PyStr) else k)"

definition gen2id :: "'d converter \<Rightarrow> DatasetType \<Rightarrow> Row \<Rightarrow> (string \<rightharpoonup> sql_value)" where
  "gen2id C dt row =
     (let k = Map.empty;
          k = (if ''detector'' \<in> set (dimensions dt) then k(ccdKey C \<mapsto> ccd row) else k)
      in if ''physical_filter'' \<in> set (dimensions dt)
         then k(''filter'' \<mapsto> filter_column row) else k)"

definition refsByDataId :: "'d FileDataset list \<Rightarrow> ('d \<rightharpoonup> 'd DatasetRef)" where
  "refsByDataId datasetsForCalibDate =
     foldl (\<lambda>m dataset. foldl (\<lambda>m r. m(dataId r \<mapsto> r)) m (refs dataset))
       Map.empty datasetsForCalibDate"

type_synonym 'd gathered = "log_record list \<times> (Timespan \<times> 'd DatasetRef list) list"

text \<open>The loop over the rows of one dataset type and calibration date.\<close>

fun join_rows ::
  "'d converter \<Rightarrow> DatasetType \<Rightarrow> string \<Rightarrow> ('d \<rightharpoonup> 'd DatasetRef) \<Rightarrow> Row list
     \<Rightarrow> 'd gathered \<Rightarrow> 'd gathered" where
  "join_rows C dt calibDate byId [] g = g"
| "join_rows C dt calibDate byId (row # rows) (lg, refsByTimespan) =
     (let timespan = (validStart row, validEnd row + day);
          d = translator C (name dt) (gen2keys C dt) (gen2id C dt row)
      in join_rows C dt calibDate byId rows
           (case byId d of
              Some r \<Rightarrow> (lg, dict_append timespan r refsByTimespan)
            | None \<Rightarrow>
                (lg @ [Debug (''Gen2 calibration registry entry has no dataset: '' @ name dt
                              @ '' for calibDate='' @ calibDate @ '', '' @ str_dataId C d
                              @ ''.'')],
                 refsByTimespan)))"

text \<open>The loop over the calibration dates of one dataset type.\<close>

fun per_calibDate ::
  "'d converter \<Rightarrow> DatasetType \<Rightarrow> (string option \<times> 'd FileDataset list) list
     \<Rightarrow> 'd gathered \<Rightarrow> log_record list \<times> (error + (Timespan \<times> 'd DatasetRef list) list)" where
  "per_calibDate C dt [] (lg, refsByTimespan) = (lg, Inr refsByTimespan)"
| "per_calibDate C dt ((calibDate, datasetsForCalibDate) # others) (lg, refsByTimespan) =
     (case calibDate of
        None \<Rightarrow> (lg, Inl AssertionError)
      | Some cd \<Rightarrow>
          (case queryGen2CalibRegistry C dt cd of
             (qlog, Inl e) \<Rightarrow> (lg @ qlog, Inl e)
           | (qlog, Inr rows) \<Rightarrow>
               per_calibDate C dt others
                 (join_rows C dt cd (refsByDataId datasetsForCalibDate) rows
                    (lg @ qlog, refsByTimespan))))"

text \<open>The loop over the dataset types.\<close>

fun gather ::
  "'d converter \<Rightarrow> (DatasetType \<times> (string option \<times> 'd FileDataset list) list) list
     \<Rightarrow> 'd gathered \<Rightarrow> log_record list \<times> (error + (Timespan \<times> 'd DatasetRef list) list)" where
  "gather C [] (lg, refsByTimespan) = (lg, Inr refsByTimespan)"
| "gather C ((dt, datasetsByCalibDate) # others) (lg, refsByTimespan) =
     (if \<not> isCalibration dt then gather C others (lg, refsByTimespan)
      else
        (case per_calibDate C dt datasetsByCalibDate (lg, refsByTimespan) of
           (lg', Inl e) \<Rightarrow> (lg', Inl e)
         | (lg', Inr refsByTimespan') \<Rightarrow> gather C others (lg', refsByTimespan')))"

text \<open>\<open>d[k]\<close> on a \<open>defaultdict(list)\<close>.\<close>

definition dict_get :: "('k \<times> 'v list) list \<Rightarrow> 'k \<Rightarrow> 'v list" where
  "dict_get d k = (case map_of d k of Some vs \<Rightarrow> vs | None \<Rightarrow> [])"

definition timespansByDataId ::
  "(Timespan \<times> 'd DatasetRef list) list
     \<Rightarrow> (('d \<times> string) \<times> (Timespan \<times> 'd DatasetRef) list) list" where
  "timespansByDataId refsByTimespan =
     foldl (\<lambda>acc timespan.
              foldl (\<lambda>acc r. dict_append (dataId r, name (datasetType r)) (timespan, r) acc)
                acc (dict_get refsByTimespan timespan))
       [] (sort (map fst refsByTimespan))"

definition no_correction :: "'r correction" where
  "no_correction = \<lparr>correctedRefsByTimespan = [], info_messages = {}, warn_messages = {}\<rparr>"

text \<open>
  What \<open>_finish\<close> has done when it returns or raises: the records logged, the calls
  \<open>registry.certify(collection, refs, timespan)\<close> made, and the exception if any. The
  listing printed to standard output is left out.
\<close>

record 'd outcome =
  logged :: "log_record list"
  certified :: "(string \<times> 'd DatasetRef list \<times> Timespan) list"
  raised :: "error option"

definition finish ::
  "'d converter \<Rightarrow> bool
     \<Rightarrow> (DatasetType \<times> (string option \<times> 'd FileDataset list) list) list \<Rightarrow> 'd outcome" where
  "finish C calibFile_exists datasets =
     (if \<not> calibFile_exists then
        \<lparr>logged = [], certified = [],
         raised = Some (RuntimeError
           (''Attempting to convert calibrations but no registry database found in '' @ root C))\<rparr>
      else
        (case gather C datasets ([], []) of
           (lg, Inl e) \<Rightarrow> \<lparr>logged = lg, certified = [], raised = Some e\<rparr>
         | (lg, Inr refsByTimespan) \<Rightarrow>
             (case correct_all (printers C) (map snd (timespansByDataId refsByTimespan))
                     no_correction of
                Inl e \<Rightarrow> \<lparr>logged = lg, certified = [], raised = Some e\<rparr>
              | Inr c \<Rightarrow>
                  \<lparr>logged = lg @ map Info (sorted_list_of_set (info_messages c))
                              @ map Warn (sorted_list_of_set (warn_messages c)),
                   certified = map (\<lambda>(timespan, rs). (collection C, rs, timespan))
                                 (correctedRefsByTimespan c),
                   raised = None\<rparr>)))"

subsection \<open>What the statements below speak of\<close>

text \<open>
  A stored pair with the end of its timespan left out, and the (timespan, ref) pairs that a
  list of \<open>certify\<close> calls has put into the registry.
\<close>

definition begin_of :: "Timespan \<times> 'r \<Rightarrow> time \<times> 'r" where
  "begin_of p = (fst (fst p), snd p)"


text \<open>
  The messages that the consecutive timespans of one sorted group give rise to: closed gaps
  and removed overlaps.
\<close>

fun gap_infos :: "formatting \<Rightarrow> Timespan list \<Rightarrow> string set" where
  "gap_infos F (a # b # ts) =
     (if \<bar>fst b - snd a\<bar> < fuzzy_day \<and> fst b - snd a > 0 then {gap_message F a b} else {})
       \<union> gap_infos F (b # ts)"
| "gap_infos F _ = {}"

fun overlap_warnings :: "formatting \<Rightarrow> Timespan list \<Rightarrow> string set" where
  "overlap_warnings F (a # b # ts) =
     (if \<bar>fst b - snd a\<bar> < fuzzy_day \<and> \<not> fst b - snd a > 0 then {overlap_message F a b} else {})
       \<union> overlap_warnings F (b # ts)"
| "overlap_warnings F _ = {}"

section \<open>Scanning a directory (repoWalker/scanner.py)\<close>

text \<open>
  A handler is called with the full path and the local name of an entry and may change what
  it is given to work on: the datasets found so far, and whatever else it reaches (a
  directory handler scans the subdirectory it matched). That is the state \<open>'s\<close>.
\<close>

record 's PathElementHandler =
  isForFiles :: bool
  call :: "string \<Rightarrow> string \<Rightarrow> 's \<Rightarrow> bool \<times> 's"
  rank :: int

definition lt :: "'s PathElementHandler \<Rightarrow> 's PathElementHandler \<Rightarrow> bool" where
  "lt self other \<longleftrightarrow> rank self < rank other"

record 's DirectoryScanner =
  files :: "'s PathElementHandler list"
  subdirectories :: "'s PathElementHandler list"

definition new_scanner :: "'s DirectoryScanner" where
  "new_scanner = \<lparr>files = [], subdirectories = []\<rparr>"

text \<open>
  \<open>bisect.insort\<close> (that is, \<open>insort_right\<close>): a binary search with \<open>x < a[mid]\<close>, then an
  insertion at the index found.
\<close>

function bisect_right ::
  "'s PathElementHandler list \<Rightarrow> 's PathElementHandler \<Rightarrow> nat \<Rightarrow> nat \<Rightarrow> nat" where
  "bisect_right a x lo hi =
     (if lo < hi then
        (let mid = (lo + hi) div 2 in
         if lt x (a ! mid) then bisect_right a x lo mid else bisect_right a x (mid + 1) hi)
      else lo)"
  by pat_completeness auto
termination
  by (relation "measure (\<lambda>(a, x, lo, hi). hi - lo)") auto

definition bisect_insort ::
  "'s PathElementHandler list \<Rightarrow> 's PathElementHandler \<Rightarrow> 's PathElementHandler list" where
  "bisect_insort a x = (let lo = bisect_right a x 0 (length a) in take lo a @ x # drop lo a)"

definition add :: "'s DirectoryScanner \<Rightarrow> 's PathElementHandler \<Rightarrow> 's DirectoryScanner" where
  "add self handler =
     (if isForFiles handler then self\<lparr>files := bisect_insort (files self) handler\<rparr>
      else self\<lparr>subdirectories := bisect_insort (subdirectories self) handler\<rparr>)"

datatype entry_kind = File | Directory | Neither

record DirEntry =
  entry_name :: string
  entry_path :: string
  kind :: entry_kind

text \<open>
  The inner loop of \<open>scan\<close> over the handlers of the pool: whether it ended with
  \<open>break\<close>, the state the handlers left, and the handlers that were called with what they
  returned, in the order of the calls.
\<close>

fun try_handlers ::
  "'s PathElementHandler list \<Rightarrow> DirEntry \<Rightarrow> 's
     \<Rightarrow> bool \<times> 's \<times> ('s PathElementHandler \<times> bool) list" where
  "try_handlers [] entry s = (False, s, [])"
| "try_handlers (handler # handlers) entry s =
     (case call handler (entry_path entry) (entry_name entry) s of
        (True, s') \<Rightarrow> (True, s', [(handler, True)])
      | (False, s') \<Rightarrow>
          (case try_handlers handlers entry s' of
             (matched, s'', called) \<Rightarrow> (matched, s'', (handler, False) # called)))"

text \<open>
  The loop of \<open>scan\<close> over the entries: the state at the end, the names that no handler
  recognized, and for each entry that was given to a pool the calls made for it.
\<close>

fun scan_entries ::
  "'s DirectoryScanner \<Rightarrow> DirEntry list \<Rightarrow> 's
     \<Rightarrow> 's \<times> string list \<times> (DirEntry \<times> ('s PathElementHandler \<times> bool) list) list" where
  "scan_entries self [] s = (s, [], [])"
| "scan_entries self (entry # entries) s =
     (if kind entry = Neither then scan_entries self entries s
      else
        (case try_handlers (if kind entry = File then files self else subdirectories self)
                entry s of
           (matched, s', called) \<Rightarrow>
             (case scan_entries self entries s' of
                (s'', unrecognized, calls) \<Rightarrow>
                  (s'', (if matched then unrecognized else entry_name entry # unrecognized),
                   (entry, called) # calls))))"

text \<open>The warning at the end of \<open>scan\<close>: the directory and the unrecognized names.\<close>

datatype diagnostic = SkippedUnrecognized string "string list"

record 's scanned =
  state :: 's
  warnings :: "diagnostic list"
  calls :: "(DirEntry \<times> ('s PathElementHandler \<times> bool) list) list"

text \<open>\<open>scan\<close>, given the entries that \<open>os.scandir(path)\<close> yields.\<close>

definition scan :: "'s DirectoryScanner \<Rightarrow> string \<Rightarrow> DirEntry list \<Rightarrow> 's \<Rightarrow> 's scanned" where
  "scan self dir_path entries s =
     (case scan_entries self entries s of
        (s', unrecognized, cs) \<Rightarrow>
          \<lparr>state = s',
           warnings = (if unrecognized \<noteq> [] then [SkippedUnrecognized dir_path unrecognized]
                       else []),
           calls = cs\<rparr>)"

section \<open>Values for the examples\<close>

text \<open>A printer that writes a whole number of days as that many strokes.\<close>

definition strokes :: formatting where
  "strokes = \<lparr>str_time = (\<lambda>t. replicate (nat \<lfloor>t\<rfloor>) CHR ''|''),
              str_seconds = (\<lambda>d. replicate (nat \<lfloor>d\<rfloor>) CHR ''s'')\<rparr>"

text \<open>
  A repository with biases of two detectors taken on two calibration dates. The registry
  holds a validity range of one day for the first date and of three days for the second, so
  that a day is missing between them. Days are counted from 2019-12-31.
\<close>

definition bias :: DatasetType where
  "bias = \<lparr>name = ''bias'', dimensions = [''instrument'', ''detector''], isCalibration = True\<rparr>"

definition bias_ref :: "int \<Rightarrow> string \<Rightarrow> int DatasetRef" where
  "bias_ref detector calibDate =
     \<lparr>dataId = detector, datasetType = bias, run = ''calib/gen2/'' @ calibDate\<rparr>"

definition registry :: "string \<Rightarrow> string \<Rightarrow> execute_result" where
  "registry query calibDate =
     (if query \<noteq> ''SELECT DISTINCT validStart, validEnd, ccd, NULL AS filter FROM bias WHERE calibDate = ?;''
      then OperationalError ''no such table''
      else if calibDate = ''2020-01-01'' then
        Cursor [\<lparr>validStart = 1, validEnd = 1, ccd = SqlInteger 1, filter_column = SqlNull\<rparr>,
                \<lparr>validStart = 1, validEnd = 1, ccd = SqlInteger 2, filter_column = SqlNull\<rparr>]
      else if calibDate = ''2020-01-03'' then
        Cursor [\<lparr>validStart = 3, validEnd = 5, ccd = SqlInteger 1, filter_column = SqlNull\<rparr>,
                \<lparr>validStart = 3, validEnd = 5, ccd = SqlInteger 2, filter_column = SqlNull\<rparr>]
      else Cursor [])"

definition calib_converter :: "int converter" where
  "calib_converter =
     \<lparr>ccdKey = ''ccd'', root = ''/repo/CALIB'', collection = ''calib'',
      tables = (\<lambda>n. if n = ''bias'' then Some [''bias''] else None),
      db_execute = registry,
      translator = (\<lambda>n keys id2. case id2 ''ccd'' of Some (SqlInteger i) \<Rightarrow> i | _ \<Rightarrow> 0),
      str_dataId = (\<lambda>d. ''{detector}''),
      printers = strokes\<rparr>"

definition found :: "(DatasetType \<times> (string option \<times> int FileDataset list) list) list" where
  "found =
     [(bias,
       [(Some ''2020-01-01'',
           [\<lparr>refs = [bias_ref 1 ''2020-01-01''], path = ''bias/2020-01-01/1.fits''\<rparr>,
            \<lparr>refs = [bias_ref 2 ''2020-01-01''], path = ''bias/2020-01-01/2.fits''\<rparr>]),
        (Some ''2020-01-03'',
           [\<lparr>refs = [bias_ref 1 ''2020-01-03''], path = ''bias/2020-01-03/1.fits''\<rparr>,
            \<lparr>refs = [bias_ref 2 ''2020-01-03''], path = ''bias/2020-01-03/2.fits''\<rparr>])])]"

text \<open>
  A flat, for which the mapper of the example has no tables.
\<close>

definition flat :: DatasetType where
  "flat = \<lparr>name = ''flat'', dimensions = [''instrument'', ''detector'', ''physical_filter''],
            isCalibration = True\<rparr>"

definition flat_ref :: "int DatasetRef" where
  "flat_ref = \<lparr>dataId = 1, datasetType = flat, run = ''calib/gen2/2020-01-01''\<rparr>"

definition found_flat :: "(DatasetType \<times> (string option \<times> int FileDataset list) list) list" where
  "found_flat =
     [(flat, [(Some ''2020-01-01'', [\<lparr>refs = [flat_ref], path = ''flat/2020-01-01/1.fits''\<rparr>])])]"

section \<open>The gap-plugging loop: basic facts\<close>

lemma corrected_note_message [simp]:
  "correctedRefsByTimespan (note_message F a b c) = correctedRefsByTimespan c"
  by (simp add: note_message_def Let_def)

lemma list_all_keys_dict_append:
  "list_all P (map fst (dict_append k v d)) \<longleftrightarrow> P k \<and> list_all P (map fst d)"
  by (induction d) (auto split: if_splits)

lemma adjusted_prev_ordered:
  "ordered tp \<Longrightarrow> fst tp \<le> fst t \<Longrightarrow> ordered (adjusted_prev tp t)"
  by (simp add: adjusted_prev_def ordered_def Let_def)

lemma fst_le_of_prod_le: "(a::Timespan) \<le> b \<Longrightarrow> fst a \<le> fst b"
  by (auto simp: less_eq_prod_def)

lemma plug_gaps_ordered:
  "sorted (map fst (p # rest)) \<Longrightarrow> list_all ordered (map fst (p # rest)) \<Longrightarrow>
   list_all ordered (map fst (correctedRefsByTimespan c)) \<Longrightarrow>
   list_all ordered (map fst (correctedRefsByTimespan (plug_gaps F p rest c)))"
proof (induction rest arbitrary: p c)
  case Nil
  then show ?case by (cases p) (simp add: store_def list_all_keys_dict_append)
next
  case (Cons x rest)
  obtain tp rp where p: "p = (tp, rp)" by (cases p)
  obtain t r where x: "x = (t, r)" by (cases x)
  have le: "fst tp \<le> fst t" using Cons.prems(1) p x by (simp add: fst_le_of_prod_le)
  have wf: "ordered (adjusted_prev tp t)"
    using Cons.prems(2) p le by (intro adjusted_prev_ordered) auto
  let ?c = "store (adjusted_prev tp t) rp (note_message F tp t c)"
  have "list_all ordered (map fst (correctedRefsByTimespan (plug_gaps F x rest ?c)))"
  proof (rule Cons.IH)
    show "sorted (map fst (x # rest))" using Cons.prems(1) by simp
    show "list_all ordered (map fst (x # rest))" using Cons.prems(2) by simp
    show "list_all ordered (map fst (correctedRefsByTimespan ?c))"
      using Cons.prems(3) wf by (simp add: store_def list_all_keys_dict_append)
  qed
  then show ?case by (simp add: p x)
qed

lemma correct_group_ordered:
  assumes "list_all ordered (map fst g)"
    and "list_all ordered (map fst (correctedRefsByTimespan c))"
    and "correct_group F g c = Inr c'"
  shows "list_all ordered (map fst (correctedRefsByTimespan c'))"
proof (cases "sort_key fst g")
  case Nil
  then show ?thesis using assms(3) by (simp add: correct_group_def)
next
  case (Cons p rest)
  have s: "sorted (map fst (p # rest))" using sorted_sort_key [of fst g] Cons by simp
  have "set (p # rest) = set g" using set_sort [of fst g] Cons by simp
  then have w: "list_all ordered (map fst (p # rest))"
    using assms(1) unfolding list_all_iff by (metis list.set_map)
  have "c' = plug_gaps F p rest c" using assms(3) Cons by (simp add: correct_group_def)
  then show ?thesis using plug_gaps_ordered [OF s w assms(2)] by simp
qed

lemma append_all_Cons: "append_all ((k, v) # ps) d = append_all ps (dict_append k v d)"
  by (simp add: append_all_def)

lemma append_all_Nil: "append_all [] d = d"
  by (simp add: append_all_def)

lemma info_store [simp]: "info_messages (store t r c) = info_messages c"
  by (simp add: store_def)

lemma warn_store [simp]: "warn_messages (store t r c) = warn_messages c"
  by (simp add: store_def)

lemma corrected_store [simp]:
  "correctedRefsByTimespan (store t r c) = dict_append t r (correctedRefsByTimespan c)"
  by (simp add: store_def)

lemma adjusted_prev_meets:
  "snd a \<le> fst b \<Longrightarrow> (fst b - snd a < fuzzy_day \<longrightarrow> fst b = snd a) \<Longrightarrow> adjusted_prev a b = a"
  by (auto simp: adjusted_prev_def Let_def)

lemma info_note_message_meets:
  "snd a \<le> fst b \<Longrightarrow> (fst b - snd a < fuzzy_day \<longrightarrow> fst b = snd a) \<Longrightarrow>
   info_messages (note_message F a b c) = info_messages c"
  by (auto simp: note_message_def Let_def)

lemma plug_gaps_already_corrected:
  "already_corrected (map fst (p # rest)) \<Longrightarrow>
   correctedRefsByTimespan (plug_gaps F p rest c) = append_all (p # rest) (correctedRefsByTimespan c)
   \<and> info_messages (plug_gaps F p rest c) = info_messages c"
proof (induction rest arbitrary: p c)
  case Nil
  then show ?case by (cases p) (simp add: append_all_Cons append_all_Nil)
next
  case (Cons x rest)
  obtain tp rp where p: "p = (tp, rp)" by (cases p)
  obtain t r where x: "x = (t, r)" by (cases x)
  from Cons.prems have d: "snd tp \<le> fst t" "fst t - snd tp < fuzzy_day \<longrightarrow> fst t = snd tp"
    and rest: "already_corrected (map fst (x # rest))"
    by (simp_all add: p x)
  show ?case
    using Cons.IH [OF rest, of "store tp rp (note_message F tp t c)"]
    by (simp add: p x adjusted_prev_meets [OF d] info_note_message_meets [OF d] append_all_Cons)
qed

section \<open>Dictionaries of lists\<close>

lemma map_fst_dict_append:
  "map fst (dict_append k v d) = (if k \<in> set (map fst d) then map fst d else map fst d @ [k])"
proof (induction d)
  case Nil
  show ?case by simp
next
  case (Cons x d)
  obtain k' vs where x: "x = (k', vs)" by (cases x)
  show ?case using Cons.IH by (cases "k = k'") (simp_all add: x)
qed

lemma distinct_keys_dict_append:
  "distinct (map fst (dict_append k v d)) \<longleftrightarrow> distinct (map fst d)"
  by (simp add: map_fst_dict_append)

lemma nonempty_values_dict_append:
  "list_all (\<lambda>vs. vs \<noteq> []) (map snd d) \<Longrightarrow>
   list_all (\<lambda>vs. vs \<noteq> []) (map snd (dict_append k v d))"
  by (induction d) auto

lemma dict_pairs_Nil [simp]: "dict_pairs [] = []"
  by (simp add: dict_pairs_def)

lemma dict_pairs_Cons [simp]: "dict_pairs ((k, vs) # d) = map (Pair k) vs @ dict_pairs d"
  by (simp add: dict_pairs_def)


lemma append_all_append: "append_all (xs @ ys) d = append_all ys (append_all xs d)"
  by (simp add: append_all_def)


lemma distinct_keys_append_all:
  "distinct (map fst (append_all ps d)) \<longleftrightarrow> distinct (map fst d)"
proof (induction ps arbitrary: d)
  case Nil
  show ?case by (simp add: append_all_Nil)
next
  case (Cons x ps)
  obtain k v where x: "x = (k, v)" by (cases x)
  show ?case by (simp add: x append_all_Cons Cons.IH distinct_keys_dict_append)
qed

lemma nonempty_values_append_all:
  "list_all (\<lambda>vs. vs \<noteq> []) (map snd d) \<Longrightarrow>
   list_all (\<lambda>vs. vs \<noteq> []) (map snd (append_all ps d))"
proof (induction ps arbitrary: d)
  case Nil
  then show ?case by (simp add: append_all_Nil)
next
  case (Cons x ps)
  obtain k v where x: "x = (k, v)" by (cases x)
  show ?case using Cons.IH [OF nonempty_values_dict_append [OF Cons.prems, of k v]]
    by (simp add: x append_all_Cons)
qed


section \<open>What the loops keep\<close>

lemma fst_adjusted_prev [simp]: "fst (adjusted_prev tp t) = fst tp"
  by (simp add: adjusted_prev_def Let_def)

lemma begin_of_adjusted_prev [simp]: "begin_of (adjusted_prev tp t, r) = begin_of (tp, r)"
  by (simp add: begin_of_def)



lemma correct_group_nonempty:
  assumes "g \<noteq> []"
  shows "\<exists>p rest. sort_key fst g = p # rest \<and> mset (p # rest) = mset g
           \<and> correct_group F g c = Inr (plug_gaps F p rest c)"
proof -
  have "sort_key fst g \<noteq> []" using assms by (metis length_sort length_0_conv)
  then obtain p rest where s: "sort_key fst g = p # rest" by (cases "sort_key fst g") auto
  have "mset (p # rest) = mset g" using mset_sort [of fst g] s by simp
  then show ?thesis using s by (simp add: correct_group_def)
qed


lemma foldl_dict_append_is_append_all:
  "foldl (\<lambda>acc r. dict_append (f r) (g r) acc) acc rs = append_all (map (\<lambda>r. (f r, g r)) rs) acc"
  by (induction rs arbitrary: acc) (simp_all add: append_all_Nil append_all_Cons)

lemma foldl_append_all_concat:
  "foldl (\<lambda>acc x. append_all (h x) acc) acc xs = append_all (concat (map h xs)) acc"
  by (induction xs arbitrary: acc) (simp_all add: append_all_Nil append_all_append)

lemma timespansByDataId_append_all:
  "timespansByDataId d =
     append_all
       (concat (map (\<lambda>t. map (\<lambda>r. ((dataId r, name (datasetType r)), (t, r))) (dict_get d t))
                  (sort (map fst d)))) []"
  unfolding timespansByDataId_def
  by (simp add: foldl_dict_append_is_append_all foldl_append_all_concat)

lemma timespansByDataId_nonempty:
  "list_all (\<lambda>g. g \<noteq> []) (map snd (timespansByDataId d))"
  unfolding timespansByDataId_append_all
  by (rule nonempty_values_append_all) simp









lemma finite_gap_infos: "finite (gap_infos F ts)"
  by (induction F ts rule: gap_infos.induct) simp_all

lemma finite_overlap_warnings: "finite (overlap_warnings F ts)"
  by (induction F ts rule: overlap_warnings.induct) simp_all

lemma info_note_message:
  "info_messages (note_message F a b c) =
     info_messages c
       \<union> (if \<bar>fst b - snd a\<bar> < fuzzy_day \<and> fst b - snd a > 0 then {gap_message F a b} else {})"
  by (cases "\<bar>fst b - snd a\<bar> < fuzzy_day"; cases "fst b - snd a > 0")
     (simp_all add: note_message_def)

lemma warn_note_message:
  "warn_messages (note_message F a b c) =
     warn_messages c
       \<union> (if \<bar>fst b - snd a\<bar> < fuzzy_day \<and> \<not> fst b - snd a > 0 then {overlap_message F a b} else {})"
  by (cases "\<bar>fst b - snd a\<bar> < fuzzy_day"; cases "fst b - snd a > 0")
     (simp_all add: note_message_def)

lemma plug_gaps_messages:
  "info_messages (plug_gaps F p rest c) = info_messages c \<union> gap_infos F (map fst (p # rest))
   \<and> warn_messages (plug_gaps F p rest c) = warn_messages c \<union> overlap_warnings F (map fst (p # rest))"
proof (induction rest arbitrary: p c)
  case Nil
  obtain tp rp where p: "p = (tp, rp)" by (cases p)
  show ?case by (simp add: p)
next
  case (Cons x rest)
  obtain tp rp where p: "p = (tp, rp)" by (cases p)
  obtain t r where x: "x = (t, r)" by (cases x)
  show ?case
    using Cons.IH [of "(t, r)" "store (adjusted_prev tp t) rp (note_message F tp t c)"]
    by (simp add: p x info_note_message warn_note_message Un_assoc)
qed

lemma correct_all_messages:
  "list_all (\<lambda>g. g \<noteq> []) gs \<Longrightarrow>
   \<exists>c'. correct_all F gs c = Inr c'
      \<and> info_messages c' =
          info_messages c \<union> (\<Union>g \<in> set gs. gap_infos F (map fst (sort_key fst g)))
      \<and> warn_messages c' =
          warn_messages c \<union> (\<Union>g \<in> set gs. overlap_warnings F (map fst (sort_key fst g)))"
proof (induction gs arbitrary: c)
  case Nil
  show ?case by simp
next
  case (Cons g gs)
  from Cons.prems have g: "g \<noteq> []" and gs: "list_all (\<lambda>g. g \<noteq> []) gs" by simp_all
  obtain p rest where s: "sort_key fst g = p # rest"
      and cg: "correct_group F g c = Inr (plug_gaps F p rest c)"
    using correct_group_nonempty [OF g, of F c] by blast
  obtain c' where c': "correct_all F gs (plug_gaps F p rest c) = Inr c'"
      and i: "info_messages c' = info_messages (plug_gaps F p rest c)
                \<union> (\<Union>g \<in> set gs. gap_infos F (map fst (sort_key fst g)))"
      and w: "warn_messages c' = warn_messages (plug_gaps F p rest c)
                \<union> (\<Union>g \<in> set gs. overlap_warnings F (map fst (sort_key fst g)))"
    using Cons.IH [OF gs, of "plug_gaps F p rest c"] by blast
  have "correct_all F (g # gs) c = Inr c'" using cg c' by simp
  moreover have "info_messages c' =
          info_messages c \<union> (\<Union>g \<in> set (g # gs). gap_infos F (map fst (sort_key fst g)))"
    using i plug_gaps_messages [of F p rest c] s by (simp add: Un_assoc)
  moreover have "warn_messages c' =
          warn_messages c \<union> (\<Union>g \<in> set (g # gs). overlap_warnings F (map fst (sort_key fst g)))"
    using w plug_gaps_messages [of F p rest c] s by (simp add: Un_assoc)
  ultimately show ?case by blast
qed

section \<open>The example repository\<close>

lemma found_gathered:
  "gather calib_converter found ([], []) =
     ([], Inr [((1, 2), [bias_ref 1 ''2020-01-01'', bias_ref 2 ''2020-01-01'']),
               ((3, 6), [bias_ref 1 ''2020-01-03'', bias_ref 2 ''2020-01-03''])])"
  by (simp add: found_def calib_converter_def bias_def bias_ref_def registry_def
      queryGen2CalibRegistry_def first_table_def refsByDataId_def gen2keys_def gen2id_def day_def)

lemma found_grouped:
  "timespansByDataId [((1, 2), [bias_ref 1 ''2020-01-01'', bias_ref 2 ''2020-01-01'']),
                      ((3, 6), [bias_ref 1 ''2020-01-03'', bias_ref 2 ''2020-01-03''])] =
     [((1, ''bias''), [((1, 2), bias_ref 1 ''2020-01-01''), ((3, 6), bias_ref 1 ''2020-01-03'')]),
      ((2, ''bias''), [((1, 2), bias_ref 2 ''2020-01-01''), ((3, 6), bias_ref 2 ''2020-01-03'')])]"
  by (simp add: timespansByDataId_def dict_get_def bias_ref_def bias_def)

lemma calib_converter_fields:
  "collection calib_converter = ''calib''" "printers calib_converter = strokes"
  by (simp_all add: calib_converter_def)

lemma found_certified:
  "certified (finish calib_converter True found) =
     [(''calib'', [bias_ref 1 ''2020-01-01'', bias_ref 2 ''2020-01-01''], (1, 3)),
      (''calib'', [bias_ref 1 ''2020-01-03'', bias_ref 2 ''2020-01-03''], (3, 6))]"
  by (simp add: finish_def found_gathered found_grouped correct_group_def no_correction_def
      store_def adjusted_prev_def note_message_def fuzzy_day_def calib_converter_fields)

section \<open>The registry query\<close>

lemma query_without_tables:
  assumes "''physical_filter'' \<in> set (dimensions dt) \<or> ''band'' \<notin> set (dimensions dt)"
  shows "tables C (name dt) = None \<Longrightarrow> queryGen2CalibRegistry C dt calibDate = ([], Inl TypeError)"
    and "tables C (name dt) = Some [] \<Longrightarrow> queryGen2CalibRegistry C dt calibDate = ([], Inl IndexError)"
  using assms by (auto simp: queryGen2CalibRegistry_def first_table_def Let_def)

lemma query_operational_error:
  assumes "''physical_filter'' \<in> set (dimensions dt) \<or> ''band'' \<notin> set (dimensions dt)"
    and "tables C (name dt) = Some (t # ts)"
    and "\<And>q. db_execute C q calibDate = OperationalError e"
  shows "queryGen2CalibRegistry C dt calibDate =
           ([Warn (''Could not extract calibration ranges for '' @ name dt @ '' in '' @ root C
                   @ '' from table '' @ t @ '': '' @ e)], Inr [])"
  using assms by (auto simp: queryGen2CalibRegistry_def first_table_def Let_def)

section \<open>Gaps and overlaps between two consecutive timespans\<close>







text \<open>
  C5 (idempotence). A sorted group that is already corrected: consecutive timespans are
  disjoint and, where they lie within \<open>fuzzy_day\<close> of each other, meet exactly. The loop stores
  every pair of it under the timespan it came with, in order, and records no gap message.
  (A pair of timespans that meet has \<open>delta = 0\<close>, which the code takes for an overlap: a
  warning about an overlap of zero seconds is recorded, and the timespan is not changed.)
\<close>

theorem correction_idempotent:
  assumes "g \<noteq> []" and "sorted (map fst g)" and "already_corrected (map fst g)"
  shows "\<exists>c'. correct_group F g c = Inr c'
           \<and> correctedRefsByTimespan c' = append_all g (correctedRefsByTimespan c)
           \<and> info_messages c' = info_messages c"
proof -
  obtain p rest where g: "g = p # rest" using assms(1) by (cases g) auto
  have "sort_key fst g = p # rest" using sort_key_id_if_sorted [OF assms(2)] g by simp
  then have "correct_group F g c = Inr (plug_gaps F p rest c)" by (simp add: correct_group_def)
  then show ?thesis using plug_gaps_already_corrected [of p rest F c] assms(3) g by simp
qed

theorem correction_idempotent_witness:
  "[((0, 1), ''a''), ((1, 3), ''b''), ((5, 6), ''c'')] \<noteq> []
   \<and> sorted (map fst [((0 :: rat, 1 :: rat), ''a''), ((1, 3), ''b''), ((5, 6), ''c'')])
   \<and> already_corrected (map fst [((0, 1), ''a''), ((1, 3), ''b''), ((5, 6), ''c'')])
   \<and> (\<exists>c'. correct_group strokes [((0, 1), ''a''), ((1, 3), ''b''), ((5, 6), ''c'')] no_correction
              = Inr c'
          \<and> correctedRefsByTimespan c' = [((0, 1), [''a'']), ((1, 3), [''b'']), ((5, 6), [''c''])]
          \<and> info_messages c' = {})"
proof -
  have h1: "[((0 :: rat, 1 :: rat), ''a''), ((1, 3), ''b''), ((5, 6), ''c'')] \<noteq> []" by simp
  have h2: "sorted (map fst [((0 :: rat, 1 :: rat), ''a''), ((1, 3), ''b''), ((5, 6), ''c'')])"
    by simp
  have h3: "already_corrected (map fst [((0, 1), ''a''), ((1, 3), ''b''), ((5, 6), ''c'')])"
    by (simp add: fuzzy_day_def)
  show ?thesis
    using h1 h2 h3 correction_idempotent [OF h1 h2 h3, of strokes no_correction]
    by (simp add: append_all_def no_correction_def)
qed

section \<open>From the registry to the certified timespans\<close>

text \<open>
  C1 (no tables, or a failing query). With \<open>tables\<close> equal to \<open>None\<close> the code evaluates
  \<open>tables[0]\<close> as an argument of the warning it is about to log, which raises \<open>TypeError\<close>
  (\<open>IndexError\<close> for an empty list, see \<open>query_without_tables\<close>): nothing is logged, the
  exception leaves \<open>_finish\<close>, and the dataset types that come after are not looked at
  and nothing is certified. A query that fails with an operational error is logged and gives
  no rows (\<open>query_operational_error\<close>).
\<close>

theorem no_tables_raises_instead_of_warning:
  "tables calib_converter (name flat) = None
   \<and> queryGen2CalibRegistry calib_converter flat ''2020-01-01'' = ([], Inl TypeError)
   \<and> finish calib_converter True (found_flat @ found) =
       \<lparr>logged = [], certified = [], raised = Some TypeError\<rparr>
   \<and> certified (finish calib_converter True found) \<noteq> []"
proof -
  have t: "tables calib_converter (name flat) = None"
    by (simp add: calib_converter_def flat_def)
  have q: "queryGen2CalibRegistry calib_converter flat ''2020-01-01'' = ([], Inl TypeError)"
    by (rule query_without_tables(1) [OF _ t]) (simp add: flat_def)
  have "gather calib_converter (found_flat @ found) ([], []) = ([], Inl TypeError)"
    using q by (simp add: found_flat_def flat_def)
  then have f: "finish calib_converter True (found_flat @ found) =
       \<lparr>logged = [], certified = [], raised = Some TypeError\<rparr>"
    by (simp add: finish_def)
  have "certified (finish calib_converter True found) \<noteq> []"
    by (simp add: found_certified)
  then show ?thesis using t q f by simp
qed



text \<open>
  C7 (missing registry file). Without the file \<open>calibRegistry.sqlite3\<close> \<open>_finish\<close> raises
  \<open>RuntimeError\<close> at once: nothing has been logged and nothing certified, whatever the
  database and the datasets are.
\<close>

theorem missing_registry_is_fatal:
  "finish C False datasets =
     \<lparr>logged = [], certified = [],
      raised = Some (RuntimeError
        (''Attempting to convert calibrations but no registry database found in '' @ root C))\<rparr>"
  by (simp add: finish_def)

theorem missing_registry_is_fatal_witness:
  "finish calib_converter False found =
     \<lparr>logged = [], certified = [],
      raised = Some (RuntimeError
        ''Attempting to convert calibrations but no registry database found in /repo/CALIB'')\<rparr>
   \<and> certified (finish calib_converter True found) \<noteq> []"
  using missing_registry_is_fatal [of calib_converter found]
  by (simp add: found_certified) (simp add: calib_converter_def)

text \<open>
  C9 (messages). When nothing raises, what \<open>_finish\<close> logs is the log of the reading of
  the registry, then the gap messages of all groups as \<open>info\<close>, then the overlap messages of
  all groups as \<open>warn\<close>; each of the two lists is sorted and has every message text once,
  however many groups gave rise to it.
\<close>

theorem messages_logged_once_sorted:
  assumes "gather C datasets ([], []) = (lg, Inr refsByTimespan)"
    and "infos = (\<Union>g \<in> set (map snd (timespansByDataId refsByTimespan)).
                    gap_infos (printers C) (map fst (sort_key fst g)))"
    and "warns = (\<Union>g \<in> set (map snd (timespansByDataId refsByTimespan)).
                    overlap_warnings (printers C) (map fst (sort_key fst g)))"
  shows "logged (finish C True datasets) =
           lg @ map Info (sorted_list_of_set infos) @ map Warn (sorted_list_of_set warns)
       \<and> sorted (sorted_list_of_set infos) \<and> distinct (sorted_list_of_set infos)
       \<and> set (sorted_list_of_set infos) = infos
       \<and> sorted (sorted_list_of_set warns) \<and> distinct (sorted_list_of_set warns)
       \<and> set (sorted_list_of_set warns) = warns"
proof -
  let ?groups = "map snd (timespansByDataId refsByTimespan)"
  obtain c where c: "correct_all (printers C) ?groups no_correction = Inr c"
    and i: "info_messages c = info_messages (no_correction :: 'a DatasetRef correction)
              \<union> (\<Union>g \<in> set ?groups. gap_infos (printers C) (map fst (sort_key fst g)))"
    and w: "warn_messages c = warn_messages (no_correction :: 'a DatasetRef correction)
              \<union> (\<Union>g \<in> set ?groups. overlap_warnings (printers C) (map fst (sort_key fst g)))"
    using correct_all_messages [OF timespansByDataId_nonempty, of "printers C" refsByTimespan no_correction]
    by blast
  have i': "info_messages c = infos" using i assms(2) by (simp add: no_correction_def)
  have w': "warn_messages c = warns" using w assms(3) by (simp add: no_correction_def)
  have fi: "finite infos" unfolding assms(2) by (intro finite_UN_I) (simp_all add: finite_gap_infos)
  have fw: "finite warns" unfolding assms(3) by (intro finite_UN_I) (simp_all add: finite_overlap_warnings)
  have "logged (finish C True datasets) =
           lg @ map Info (sorted_list_of_set infos) @ map Warn (sorted_list_of_set warns)"
    using assms(1) c i' w' by (simp add: finish_def)
  then show ?thesis using fi fw by simp
qed

theorem messages_logged_once_sorted_witness:
  "gather calib_converter found ([], []) =
     ([], Inr [((1, 2), [bias_ref 1 ''2020-01-01'', bias_ref 2 ''2020-01-01'']),
               ((3, 6), [bias_ref 1 ''2020-01-03'', bias_ref 2 ''2020-01-03''])])
   \<and> logged (finish calib_converter True found) =
       [Info (gap_message strokes (1, 2) (3, 6))]"
proof -
  let ?D = "[((1, 2), [bias_ref 1 ''2020-01-01'', bias_ref 2 ''2020-01-01'']),
             ((3, 6), [bias_ref 1 ''2020-01-03'', bias_ref 2 ''2020-01-03''])]"
  have i: "{gap_message strokes (1, 2) (3, 6)} =
      (\<Union>g \<in> set (map snd (timespansByDataId ?D)).
          gap_infos (printers calib_converter) (map fst (sort_key fst g)))"
    by (simp add: found_grouped calib_converter_def fuzzy_day_def)
  have w: "{} =
      (\<Union>g \<in> set (map snd (timespansByDataId ?D)).
          overlap_warnings (printers calib_converter) (map fst (sort_key fst g)))"
    by (simp add: found_grouped calib_converter_def fuzzy_day_def)
  show ?thesis
    using messages_logged_once_sorted [OF found_gathered i w] found_gathered by simp
qed

end
